theory Spec2Isabelle
  imports Main "HOL-Library.Word"
begin

section \<open>Errors of the resource store\<close>

text \<open>
  The store's errors are classified by a status reason (\<open>errors.IsAlreadyExists\<close>,
  \<open>errors.IsNotFound\<close>, \<open>errors.IsConflict\<close>).  An error built by \<open>fmt.Errorf\<close> is a
  plain error: it keeps the text of its cause and loses the classification.
\<close>

datatype StatusReason = AlreadyExists | NotFound | Conflict | Unknown

datatype error = StatusError StatusReason | Errorf string error

fun ReasonForError :: "error \<Rightarrow> StatusReason" where
  "ReasonForError (StatusError r) = r"
| "ReasonForError (Errorf msg cause) = Unknown"

definition IsAlreadyExists :: "error \<Rightarrow> bool" where
  "IsAlreadyExists err = (ReasonForError err = AlreadyExists)"

definition IsNotFound :: "error \<Rightarrow> bool" where
  "IsNotFound err = (ReasonForError err = NotFound)"

definition IsConflict :: "error \<Rightarrow> bool" where
  "IsConflict err = (ReasonForError err = Conflict)"

text \<open>
  What a Go function of result type \<open>error\<close> can do: return \<open>nil\<close>, return an error,
  or panic (the index expression of \<open>isCuratorDifferent\<close>).
\<close>

datatype panic = IndexOutOfRange

datatype outcome = Ok | Failed error | Panicked panic

section \<open>Data model\<close>

record ObjectMeta =
  Name :: string
  Namespace :: string
  Labels :: "(string \<times> string) list"
  OwnerReferences :: "string list"
  ResourceVersion :: string

record ResourceRequirements =
  Limits :: "(string \<times> string) list"
  Requests :: "(string \<times> string) list"

record EnvVar =
  EnvName :: string
  EnvValue :: string

record VolumeMount =
  MountName :: string
  ReadOnly :: bool
  MountPath :: string

record Container =
  ContainerName :: string
  Image :: string
  ImagePullPolicy :: string
  Resources :: ResourceRequirements
  Env :: "EnvVar list"
  VolumeMounts :: "VolumeMount list"

datatype VolumeSource = ConfigMapVolumeSource string | SecretVolumeSource string

record Volume =
  VolumeName :: string
  Source :: VolumeSource

record PodSpec =
  ServiceAccountName :: string
  Containers :: "Container list"
  Volumes :: "Volume list"
  RestartPolicy :: string
  TerminationGracePeriodSeconds :: "64 word option"

record PodTemplateSpec =
  TemplateMeta :: ObjectMeta
  TemplateSpec :: PodSpec

record JobSpec =
  BackoffLimit :: "32 word option"
  Parallelism :: "32 word option"
  Template :: PodTemplateSpec

record JobTemplateSpec =
  JobTemplateSpec_Spec :: JobSpec

record CronJobSpec =
  SuccessfulJobsHistoryLimit :: "32 word option"
  FailedJobsHistoryLimit :: "32 word option"
  Schedule :: string
  Suspend :: "bool option"
  JobTemplate :: JobTemplateSpec

record CronJob =
  Meta :: ObjectMeta
  Spec :: CronJobSpec

text \<open>
  The path \<open>Spec.JobTemplate.Spec.Template.Spec.Containers\<close> of a cron job, read and
  written.
\<close>

definition podContainers :: "CronJob \<Rightarrow> Container list" where
  "podContainers j = Containers (TemplateSpec (Template (JobTemplateSpec_Spec (JobTemplate (Spec j)))))"

definition setPodContainers :: "Container list \<Rightarrow> CronJob \<Rightarrow> CronJob" where
  "setPodContainers cs j =
     j\<lparr>Spec := (Spec j)\<lparr>JobTemplate := (JobTemplate (Spec j))\<lparr>JobTemplateSpec_Spec :=
       (JobTemplateSpec_Spec (JobTemplate (Spec j)))\<lparr>Template :=
         (Template (JobTemplateSpec_Spec (JobTemplate (Spec j))))\<lparr>TemplateSpec :=
           (TemplateSpec (Template (JobTemplateSpec_Spec (JobTemplate (Spec j)))))\<lparr>Containers := cs\<rparr>\<rparr>\<rparr>\<rparr>\<rparr>\<rparr>"

section \<open>The diff of a live and a desired scheduled job\<close>

text \<open>
  \<open>isCuratorDifferent\<close> overwrites, in \<open>current\<close>, the schedule, the suspended flag and
  the image of the first container where they differ from \<open>desired\<close>, and returns the
  patched object with the flag.  \<open>Containers[0]\<close> panics on an empty list; the live list
  is indexed first.
\<close>

definition isCuratorDifferent :: "CronJob \<Rightarrow> CronJob \<Rightarrow> panic + (CronJob \<times> bool)" where
  "isCuratorDifferent current desired =
     (let different = False;
          (current, different) =
            (if Schedule (Spec current) \<noteq> Schedule (Spec desired)
             then (current\<lparr>Spec := (Spec current)\<lparr>Schedule := Schedule (Spec desired)\<rparr>\<rparr>, True)
             else (current, different));
          (current, different) =
            (case (Suspend (Spec current), Suspend (Spec desired)) of
               (Some a, Some b) \<Rightarrow>
                 if a \<noteq> b
                 then (current\<lparr>Spec := (Spec current)\<lparr>Suspend := Suspend (Spec desired)\<rparr>\<rparr>, True)
                 else (current, different)
             | _ \<Rightarrow> (current, different))
      in case podContainers current of
           [] \<Rightarrow> Inl IndexOutOfRange
         | c # cs \<Rightarrow>
             (case podContainers desired of
                [] \<Rightarrow> Inl IndexOutOfRange
              | d # ds \<Rightarrow>
                  if Image c \<noteq> Image d
                  then Inr (setPodContainers (c\<lparr>Image := Image d\<rparr> # cs) current, True)
                  else Inr (current, different)))"

section \<open>The cluster configuration\<close>

datatype ManagementState = ManagementStateManaged | ManagementStateUnmanaged

datatype CurationType = CurationTypeCurator | CurationTypeOther string

datatype Topology = Combined | Split

text \<open>
  \<open>logging.ClusterLogging\<close>, with the fields this file reads: the namespace and name, the
  management mode, \<open>Spec.Curation.Type\<close>, \<open>Spec.Curation.CuratorSpec.Schedule\<close>,
  \<open>Spec.Curation.Resources\<close>, the topology selector, and
  \<open>Status.Curation.CuratorStatus\<close>, whose type \<open>'s\<close> is opaque and compared by equality.
\<close>

record 's ClusterLogging =
  ClusterMeta :: ObjectMeta
  ManagementState :: ManagementState
  CurationType :: CurationType
  CuratorSchedule :: string
  CurationResources :: "ResourceRequirements option"
  Topology :: Topology
  CuratorStatus :: 's

section \<open>The resource store\<close>

datatype kind = KServiceAccount | KConfigMap | KSecret | KCronJob | KClusterLogging

datatype 's resource =
    ServiceAccountR ObjectMeta
  | ConfigMapR ObjectMeta "(string \<times> string) list"
  | SecretR ObjectMeta "(string \<times> string) list"
  | CronJobR CronJob
  | ClusterLoggingR "'s ClusterLogging"

fun kindOf :: "'s resource \<Rightarrow> kind" where
  "kindOf (ServiceAccountR m) = KServiceAccount"
| "kindOf (ConfigMapR m d) = KConfigMap"
| "kindOf (SecretR m d) = KSecret"
| "kindOf (CronJobR j) = KCronJob"
| "kindOf (ClusterLoggingR c) = KClusterLogging"

fun metaOf :: "'s resource \<Rightarrow> ObjectMeta" where
  "metaOf (ServiceAccountR m) = m"
| "metaOf (ConfigMapR m d) = m"
| "metaOf (SecretR m d) = m"
| "metaOf (CronJobR j) = Meta j"
| "metaOf (ClusterLoggingR c) = ClusterMeta c"

text \<open>
  The calls issued to the store, in the order they are issued.  \<open>Get\<close> and \<open>Delete\<close> name
  their target by kind, namespace and name; \<open>ListStatus\<close> stands for the queries of
  \<open>getCuratorStatus\<close> in a namespace.
\<close>

datatype 's call =
    Create "'s resource"
  | Get kind string string
  | Update "'s resource"
  | Delete kind string string
  | ListStatus string

text \<open>
  The store and the environment are parameters.  Every answer of the store may depend
  on the whole history of calls, so that a store can fail at any call and can be changed
  by other writers between two calls.  A successful \<open>Create\<close> answers the object as the
  server stored it, which may differ from the object submitted (defaulted fields, version
  token).  \<open>retrySteps\<close> is the number of attempts of
  \<open>retry.DefaultRetry\<close>; \<open>componentImage\<close>, the file contents and the two default
  quantities are the values that helpers and constants outside this file supply.
\<close>

record 's world =
  onCreate :: "'s call list \<Rightarrow> 's resource \<Rightarrow> error + 's resource"
  onGetCronJob :: "'s call list \<Rightarrow> CronJob \<Rightarrow> error + CronJob"
  onGetClusterLogging :: "'s call list \<Rightarrow> 's ClusterLogging \<Rightarrow> error + 's ClusterLogging"
  onUpdate :: "'s call list \<Rightarrow> 's resource \<Rightarrow> error option"
  onDelete :: "'s call list \<Rightarrow> kind \<Rightarrow> string \<Rightarrow> string \<Rightarrow> error option"
  onCuratorStatus :: "'s call list \<Rightarrow> string \<Rightarrow> error + 's"
  retrySteps :: nat
  componentImage :: "string \<Rightarrow> string"
  fileContents :: "string \<Rightarrow> string"
  workingDirFileContents :: "string \<Rightarrow> string"
  defaultCuratorMemory :: string
  defaultCuratorCpuRequest :: string

text \<open>\<open>sdk.Create\<close> submits the object and, on success, writes the server's answer back
  into the object passed in; on an error the object is left as it was.  The result is
  the error, the object after the call, and the trace.\<close>

definition sdk_Create :: "'s world \<Rightarrow> 's resource \<Rightarrow> 's call list \<Rightarrow> error option \<times> 's resource \<times> 's call list" where
  "sdk_Create w r t =
     (case onCreate w t r of
        Inl e \<Rightarrow> (Some e, r, t @ [Create r])
      | Inr answer \<Rightarrow> (None, answer, t @ [Create r]))"

text \<open>The cron job object after \<open>sdk.Create\<close>: the answer is decoded into the typed
  object that was passed in.\<close>

definition decodeCronJob :: "'s resource \<Rightarrow> CronJob \<Rightarrow> CronJob" where
  "decodeCronJob answer into = (case answer of CronJobR j \<Rightarrow> j | _ \<Rightarrow> into)"

text \<open>\<open>sdk.Update\<close> submits the object.  Every caller in this file returns right after a
  successful update, so the answer written back into the object is never read.\<close>

definition sdk_Update :: "'s world \<Rightarrow> 's resource \<Rightarrow> 's call list \<Rightarrow> error option \<times> 's call list" where
  "sdk_Update w r t = (onUpdate w t r, t @ [Update r])"

definition sdk_Delete :: "'s world \<Rightarrow> kind \<Rightarrow> string \<Rightarrow> string \<Rightarrow> 's call list \<Rightarrow> error option \<times> 's call list" where
  "sdk_Delete w k ns n t = (onDelete w t k ns n, t @ [Delete k ns n])"

text \<open>\<open>sdk.Get\<close> on a cron job: the object passed in names the target and is overwritten
  by the live object.\<close>

definition sdk_Get :: "'s world \<Rightarrow> CronJob \<Rightarrow> 's call list \<Rightarrow> (error + CronJob) \<times> 's call list" where
  "sdk_Get w into t =
     (onGetCronJob w t into, t @ [Get KCronJob (Namespace (Meta into)) (Name (Meta into))])"

text \<open>The test \<open>err != nil && !benign(err)\<close> followed by \<open>fmt.Errorf(msg, err)\<close>.\<close>

definition fatalUnless :: "(error \<Rightarrow> bool) \<Rightarrow> string \<Rightarrow> error option \<Rightarrow> error option" where
  "fatalUnless benign msg err =
     (case err of None \<Rightarrow> None
      | Some e \<Rightarrow> if benign e then None else Some (Errorf msg e))"

definition returned :: "error option \<Rightarrow> outcome" where
  "returned err = (case err of None \<Rightarrow> Ok | Some e \<Rightarrow> Failed e)"

section \<open>Helpers of the repository outside this file\<close>

text \<open>Modelled from the spec: \<open>utils.AllInOne\<close> is not among the sources; the topology
  selector of the cluster configuration chooses the combined or the split topology.\<close>

definition AllInOne :: "'s ClusterLogging \<Rightarrow> bool" where
  "AllInOne cluster = (Topology cluster = Combined)"

text \<open>Modelled from the spec: \<open>utils.AsOwner\<close> is not among the sources; the owner
  reference points back to the cluster configuration, here by its name.\<close>

definition AsOwner :: "'s ClusterLogging \<Rightarrow> string" where
  "AsOwner cluster = Name (ClusterMeta cluster)"

text \<open>Modelled from the spec: \<open>utils.AddOwnerRefToObject\<close> is not among the sources; each
  resource carries an owner reference.\<close>

definition AddOwnerRefToObject :: "string \<Rightarrow> ObjectMeta \<Rightarrow> ObjectMeta" where
  "AddOwnerRefToObject owner m = m\<lparr>OwnerReferences := OwnerReferences m @ [owner]\<rparr>"

text \<open>Modelled from the spec: the constructors \<open>utils.ServiceAccount\<close>, \<open>utils.ConfigMap\<close>
  and \<open>utils.Secret\<close> are not among the sources; a named object in a namespace.\<close>

definition newMeta :: "string \<Rightarrow> string \<Rightarrow> ObjectMeta" where
  "newMeta n ns = \<lparr>Name = n, Namespace = ns, Labels = [], OwnerReferences = [], ResourceVersion = []\<rparr>"

text \<open>Modelled from the spec: \<open>utils.Container\<close> is not among the sources; the container
  image reference is selected outside this core.\<close>

definition utils_Container :: "'s world \<Rightarrow> string \<Rightarrow> string \<Rightarrow> ResourceRequirements \<Rightarrow> Container" where
  "utils_Container w n pullPolicy res =
     \<lparr>ContainerName = n, Image = componentImage w n, ImagePullPolicy = pullPolicy,
      Resources = res, Env = [], VolumeMounts = []\<rparr>"

text \<open>Modelled from the spec: \<open>utils.PodSpec\<close> is not among the sources; a pod of the given
  identity, containers and volumes.\<close>

definition utils_PodSpec :: "string \<Rightarrow> Container list \<Rightarrow> Volume list \<Rightarrow> PodSpec" where
  "utils_PodSpec serviceAccount cs vs =
     \<lparr>ServiceAccountName = serviceAccount, Containers = cs, Volumes = vs,
      RestartPolicy = [], TerminationGracePeriodSeconds = None\<rparr>"

text \<open>Modelled from the spec: \<open>utils.CronJob\<close> is not among the sources; a scheduled job
  of the given logical name and namespace with the given specification.\<close>

definition utils_CronJob :: "string \<Rightarrow> string \<Rightarrow> string \<Rightarrow> string \<Rightarrow> CronJobSpec \<Rightarrow> CronJob" where
  "utils_CronJob cronjobName ns loggingComponent component cronjobSpec =
     \<lparr>Meta = (newMeta cronjobName ns)\<lparr>Labels :=
        [(''provider'', ''openshift''), (''component'', component),
         (''logging-infra'', loggingComponent)]\<rparr>,
      Spec = cronjobSpec\<rparr>"

text \<open>Modelled from the spec: the four \<open>utils.Remove...\<close> helpers are not among the
  sources; each deletion treats "not found" as success, and any other error is fatal
  and wrapped with the operation and the resource.\<close>

definition utils_Remove :: "kind \<Rightarrow> string \<Rightarrow> 's world \<Rightarrow> 's ClusterLogging \<Rightarrow> string \<Rightarrow> 's call list \<Rightarrow> outcome \<times> 's call list" where
  "utils_Remove k what w cluster n t =
     (let (err, t) = sdk_Delete w k (Namespace (ClusterMeta cluster)) n t
      in (returned (fatalUnless IsNotFound (''Failure deleting '' @ n @ '' '' @ what @ '': '') err), t))"

abbreviation "RemoveServiceAccount \<equiv> utils_Remove KServiceAccount ''service account''"
abbreviation "RemoveConfigMap \<equiv> utils_Remove KConfigMap ''configmap''"
abbreviation "RemoveSecret \<equiv> utils_Remove KSecret ''secret''"
abbreviation "RemoveCronJob \<equiv> utils_Remove KCronJob ''cronjob''"

text \<open>Modelled from the spec: \<open>utils.CreateOrUpdateSecret\<close> is not among the sources; the
  credential bundle is one of the three write-once resources: creation is attempted,
  "already exists" is success, any other error is fatal and wrapped, and existing
  content is never read back or updated.\<close>

definition utils_CreateOrUpdateSecret :: "'s world \<Rightarrow> 's resource \<Rightarrow> 's call list \<Rightarrow> outcome \<times> 's call list" where
  "utils_CreateOrUpdateSecret w secret t =
     (let (err, created, t) = sdk_Create w secret t
      in (returned (fatalUnless IsAlreadyExists
            (''Failure constructing '' @ Name (metaOf secret) @ '' secret: '') err), t))"

text \<open>
  The variables of the status step that share storage.  A status value lives in a cell
  of \<open>cells\<close>; the captured variable \<open>curatorStatus\<close> and the field
  \<open>Status.Curation.CuratorStatus\<close> of the cluster object each refer to a cell.  The
  assignment \<open>cluster.Status.Curation.CuratorStatus = curatorStatus\<close> makes the field
  refer to the cell of the variable, and a later decoding into the cluster object writes
  through the field into that cell.  \<open>clusterFields\<close> holds the other fields of the
  cluster object.
\<close>

record 's statusFrame =
  cells :: "nat \<Rightarrow> 's"
  curatorStatusVar :: nat
  clusterStatusField :: nat
  clusterFields :: "'s ClusterLogging"

definition clusterValue :: "'s statusFrame \<Rightarrow> 's ClusterLogging" where
  "clusterValue f = (clusterFields f)\<lparr>CuratorStatus := cells f (clusterStatusField f)\<rparr>"

text \<open>The frame when the retry loop starts: the freshly computed status and the status of
  the caller's cluster object are in different cells.\<close>

definition newStatusFrame :: "'s ClusterLogging \<Rightarrow> 's \<Rightarrow> 's statusFrame" where
  "newStatusFrame cluster curatorStatus =
     \<lparr>cells = (\<lambda>a. if a = 0 then curatorStatus else CuratorStatus cluster),
      curatorStatusVar = 0,
      clusterStatusField = 1,
      clusterFields = cluster\<rparr>"

text \<open>Modelled from the spec: \<open>utils.DoesClusterLoggingExist\<close> is not among the sources; it
  re-fetches the owning cluster configuration.  The stored object is decoded into the
  cluster object passed in, in place: the cell its status field refers to receives the
  stored status.  An error of the fetch leaves the object as it was and answers false.\<close>

definition DoesClusterLoggingExist :: "'s world \<Rightarrow> 's statusFrame \<Rightarrow> 's call list \<Rightarrow> bool \<times> 's statusFrame \<times> 's call list" where
  "DoesClusterLoggingExist w f t =
     (let t' = t @ [Get KClusterLogging (Namespace (ClusterMeta (clusterValue f)))
                      (Name (ClusterMeta (clusterValue f)))]
      in case onGetClusterLogging w t (clusterValue f) of
           Inl e \<Rightarrow> (False, f, t')
         | Inr stored \<Rightarrow>
             (True,
              f\<lparr>cells := (cells f)(clusterStatusField f := CuratorStatus stored),
                clusterFields := stored\<rparr>,
              t'))"

text \<open>Modelled from the spec: \<open>getCuratorStatus\<close> is not among the sources; it computes the
  derived status from the observable state of the managed resources of a namespace.\<close>

definition getCuratorStatus :: "'s world \<Rightarrow> string \<Rightarrow> 's call list \<Rightarrow> (error + 's) \<times> 's call list" where
  "getCuratorStatus w ns t = (onCuratorStatus w t ns, t @ [ListStatus ns])"

text \<open>Modelled from the spec: \<open>retry.RetryOnConflict\<close> belongs to the client library; a
  bounded number of attempts, a version conflict starts the next attempt, any other
  error is returned at once, and exhausting the budget returns the last conflict.\<close>

fun RetryOnConflict_from :: "nat \<Rightarrow> ('a \<Rightarrow> outcome \<times> 'a) \<Rightarrow> error option \<Rightarrow> 'a \<Rightarrow> outcome \<times> 'a" where
  "RetryOnConflict_from 0 fn lastConflictErr s = (returned lastConflictErr, s)"
| "RetryOnConflict_from (Suc n) fn lastConflictErr s =
     (let (r, s') = fn s
      in case r of
           Ok \<Rightarrow> (Ok, s')
         | Failed e \<Rightarrow>
             if IsConflict e then RetryOnConflict_from n fn (Some e) s' else (Failed e, s')
         | Panicked p \<Rightarrow> (Panicked p, s'))"

definition RetryOnConflict :: "nat \<Rightarrow> ('a \<Rightarrow> outcome \<times> 'a) \<Rightarrow> 'a \<Rightarrow> outcome \<times> 'a" where
  "RetryOnConflict steps fn s = RetryOnConflict_from steps fn None s"

section \<open>The reconciler of \<open>curation.go\<close>\<close>

definition defaultSchedule :: string where
  "defaultSchedule = ''30 3,9,15,21 * * *''"

definition createOrUpdateCuratorServiceAccount :: "'s world \<Rightarrow> 's ClusterLogging \<Rightarrow> 's call list \<Rightarrow> outcome \<times> 's call list" where
  "createOrUpdateCuratorServiceAccount w logging t =
     (let curatorServiceAccount =
            ServiceAccountR (AddOwnerRefToObject (AsOwner logging)
              (newMeta ''curator'' (Namespace (ClusterMeta logging))));
          (err, created, t) = sdk_Create w curatorServiceAccount t
      in (returned (fatalUnless IsAlreadyExists ''Failure creating Curator service account: '' err), t))"

definition createOrUpdateCuratorConfigMap :: "'s world \<Rightarrow> 's ClusterLogging \<Rightarrow> 's call list \<Rightarrow> outcome \<times> 's call list" where
  "createOrUpdateCuratorConfigMap w logging t =
     (let curatorConfigMap =
            ConfigMapR (AddOwnerRefToObject (AsOwner logging)
              (newMeta ''curator'' (Namespace (ClusterMeta logging))))
              [(''actions.yaml'', fileContents w ''files/curator-actions.yaml''),
               (''curator5.yaml'', fileContents w ''files/curator5-config.yaml''),
               (''config.yaml'', fileContents w ''files/curator-config.yaml'')];
          (err, created, t) = sdk_Create w curatorConfigMap t
      in (returned (fatalUnless IsAlreadyExists ''Failure constructing Curator configmap: '' err), t))"

definition createOrUpdateCuratorSecret :: "'s world \<Rightarrow> 's ClusterLogging \<Rightarrow> 's call list \<Rightarrow> outcome \<times> 's call list" where
  "createOrUpdateCuratorSecret w logging t =
     (let curatorSecret =
            SecretR (AddOwnerRefToObject (AsOwner logging)
              (newMeta ''curator'' (Namespace (ClusterMeta logging))))
              [(''ca'', workingDirFileContents w ''ca.crt''),
               (''key'', workingDirFileContents w ''system.logging.curator.key''),
               (''cert'', workingDirFileContents w ''system.logging.curator.crt''),
               (''ops-ca'', workingDirFileContents w ''ca.crt''),
               (''ops-key'', workingDirFileContents w ''system.logging.curator.key''),
               (''ops-cert'', workingDirFileContents w ''system.logging.curator.crt'')]
      in utils_CreateOrUpdateSecret w curatorSecret t)"

definition newCuratorCronJob :: "'s world \<Rightarrow> 's ClusterLogging \<Rightarrow> string \<Rightarrow> string \<Rightarrow> CronJob" where
  "newCuratorCronJob w logging curatorName elasticsearchHost =
     (let resources =
            (case CurationResources logging of
               None \<Rightarrow>
                 \<lparr>Limits = [(''memory'', defaultCuratorMemory w)],
                  Requests = [(''memory'', defaultCuratorMemory w),
                              (''cpu'', defaultCuratorCpuRequest w)]\<rparr>
             | Some r \<Rightarrow> r);
          curatorContainer = (utils_Container w ''curator'' ''IfNotPresent'' resources)
            \<lparr>Env :=
               [\<lparr>EnvName = ''K8S_HOST_URL'', EnvValue = ''https://kubernetes.default.svc.cluster.local''\<rparr>,
                \<lparr>EnvName = ''ES_HOST'', EnvValue = elasticsearchHost\<rparr>,
                \<lparr>EnvName = ''ES_PORT'', EnvValue = ''9200''\<rparr>,
                \<lparr>EnvName = ''ES_CLIENT_CERT'', EnvValue = ''/etc/curator/keys/cert''\<rparr>,
                \<lparr>EnvName = ''ES_CLIENT_KEY'', EnvValue = ''/etc/curator/keys/key''\<rparr>,
                \<lparr>EnvName = ''ES_CA'', EnvValue = ''/etc/curator/keys/ca''\<rparr>,
                \<lparr>EnvName = ''CURATOR_DEFAULT_DAYS'', EnvValue = ''30''\<rparr>,
                \<lparr>EnvName = ''CURATOR_SCRIPT_LOG_LEVEL'', EnvValue = ''INFO''\<rparr>,
                \<lparr>EnvName = ''CURATOR_LOG_LEVEL'', EnvValue = ''ERROR''\<rparr>,
                \<lparr>EnvName = ''CURATOR_TIMEOUT'', EnvValue = ''300''\<rparr>],
             VolumeMounts :=
               [\<lparr>MountName = ''certs'', ReadOnly = True, MountPath = ''/etc/curator/keys''\<rparr>,
                \<lparr>MountName = ''config'', ReadOnly = True, MountPath = ''/etc/curator/settings''\<rparr>]\<rparr>;
          curatorPodSpec = (utils_PodSpec ''curator'' [curatorContainer]
               [\<lparr>VolumeName = ''config'', Source = ConfigMapVolumeSource ''curator''\<rparr>,
                \<lparr>VolumeName = ''certs'', Source = SecretVolumeSource ''curator''\<rparr>])
            \<lparr>RestartPolicy := ''Never'', TerminationGracePeriodSeconds := Some 600\<rparr>;
          schedule = (if CuratorSchedule logging = [] then defaultSchedule
                      else CuratorSchedule logging);
          curatorCronJob = utils_CronJob curatorName (Namespace (ClusterMeta logging))
            ''curator'' curatorName
            \<lparr>SuccessfulJobsHistoryLimit = Some 1,
             FailedJobsHistoryLimit = Some 1,
             Schedule = schedule,
             Suspend = None,
             JobTemplate = \<lparr>JobTemplateSpec_Spec =
               \<lparr>BackoffLimit = Some 0,
                Parallelism = Some 1,
                Template =
                  \<lparr>TemplateMeta = (newMeta curatorName (Namespace (ClusterMeta logging)))
                     \<lparr>Labels := [(''provider'', ''openshift''), (''component'', curatorName),
                                 (''logging-infra'', ''curator'')]\<rparr>,
                   TemplateSpec = curatorPodSpec\<rparr>\<rparr>\<rparr>\<rparr>
      in curatorCronJob\<lparr>Meta := AddOwnerRefToObject (AsOwner logging) (Meta curatorCronJob)\<rparr>)"

text \<open>
  \<open>updateCuratorIfRequired\<close>: fetch the live job into a copy of the desired one; an absent
  job is success; otherwise diff, and update the store with the patched live object when
  the diff reports a change.
\<close>

definition updateCuratorIfRequired :: "'s world \<Rightarrow> CronJob \<Rightarrow> 's call list \<Rightarrow> outcome \<times> 's call list" where
  "updateCuratorIfRequired w desired t =
     (let current = desired;
          (got, t) = sdk_Get w current t
      in case got of
           Inl err \<Rightarrow>
             if IsNotFound err then (Ok, t)
             else (Failed (Errorf ''Failed to get Curator cronjob: '' err), t)
         | Inr current \<Rightarrow>
             (case isCuratorDifferent current desired of
                Inl p \<Rightarrow> (Panicked p, t)
              | Inr (current, different) \<Rightarrow>
                  if different
                  then (let (err, t) = sdk_Update w (CronJobR current) t in (returned err, t))
                  else (Ok, t)))"

definition createOrUpdateCuratorCronJob :: "'s world \<Rightarrow> 's ClusterLogging \<Rightarrow> 's call list \<Rightarrow> outcome \<times> 's call list" where
  "createOrUpdateCuratorCronJob w cluster t =
     (if AllInOne cluster then
        (let curatorCronJob = newCuratorCronJob w cluster ''curator'' ''elasticsearch'';
             (err, created, t) = sdk_Create w (CronJobR curatorCronJob) t;
             curatorCronJob = decodeCronJob created curatorCronJob
         in case fatalUnless IsAlreadyExists ''Failure constructing Curator cronjob: '' err of
              Some e \<Rightarrow> (Failed e, t)
            | None \<Rightarrow>
                if ManagementState cluster = ManagementStateManaged
                then (let (retryErr, t) = RetryOnConflict (retrySteps w)
                                            (updateCuratorIfRequired w curatorCronJob) t
                      in (retryErr, t))
                else (Ok, t))
      else
        (let curatorCronJob = newCuratorCronJob w cluster ''curator-app'' ''elasticsearch-app'';
             (err, created, t) = sdk_Create w (CronJobR curatorCronJob) t;
             curatorCronJob = decodeCronJob created curatorCronJob
         in case fatalUnless IsAlreadyExists ''Failure constructing Curator App cronjob: '' err of
              Some e \<Rightarrow> (Failed e, t)
            | None \<Rightarrow>
                (let (retryErr, t) =
                       (if ManagementState cluster = ManagementStateManaged
                        then RetryOnConflict (retrySteps w)
                               (updateCuratorIfRequired w curatorCronJob) t
                        else (Ok, t))
                 in case retryErr of
                      Ok \<Rightarrow>
                        (let curatorInfraCronJob =
                               newCuratorCronJob w cluster ''curator-infra'' ''elasticsearch-infra'';
                             (err, created, t) = sdk_Create w (CronJobR curatorInfraCronJob) t;
                             curatorInfraCronJob = decodeCronJob created curatorInfraCronJob
                         in case fatalUnless IsAlreadyExists
                                   ''Failure constructing Curator Infra cronjob: '' err of
                              Some e \<Rightarrow> (Failed e, t)
                            | None \<Rightarrow>
                                if ManagementState cluster = ManagementStateManaged
                                then (let (retryErr, t) = RetryOnConflict (retrySteps w)
                                            (updateCuratorIfRequired w curatorInfraCronJob) t
                                      in (retryErr, t))
                                else (Ok, t))
                    | _ \<Rightarrow> (retryErr, t))))"

definition removeCurator :: "'s world \<Rightarrow> 's ClusterLogging \<Rightarrow> 's call list \<Rightarrow> outcome \<times> 's call list" where
  "removeCurator w cluster t =
     (if ManagementState cluster = ManagementStateManaged then
        (case RemoveServiceAccount w cluster ''curator'' t of
           (Ok, t) \<Rightarrow>
             (case RemoveConfigMap w cluster ''curator'' t of
                (Ok, t) \<Rightarrow>
                  (case RemoveSecret w cluster ''curator'' t of
                     (Ok, t) \<Rightarrow>
                       (case RemoveCronJob w cluster ''curator'' t of
                          (Ok, t) \<Rightarrow> (Ok, t)
                        | (err, t) \<Rightarrow> (err, t))
                   | (err, t) \<Rightarrow> (err, t))
              | (err, t) \<Rightarrow> (err, t))
         | (err, t) \<Rightarrow> (err, t))
      else (Ok, t))"

text \<open>
  One attempt of the status retry loop, the function literal passed to
  \<open>retry.RetryOnConflict\<close> in \<open>CreateOrUpdateCuration\<close>.  The closure captures the cluster
  object of its caller and the variable \<open>curatorStatus\<close>: the re-fetch decodes into the
  cluster object, \<open>reflect.DeepEqual\<close> compares what the variable and the status field
  refer to at that moment, and the assignment of the new status makes the field share
  the storage of the variable.
\<close>

definition updateStatusAttempt :: "'s world \<Rightarrow> 's statusFrame \<times> 's call list \<Rightarrow> outcome \<times> ('s statusFrame \<times> 's call list)" where
  "updateStatusAttempt w s =
     (let (f, t) = s;
          (exists, f, t) = DoesClusterLoggingExist w f t
      in if exists then
           if cells f (curatorStatusVar f) \<noteq> cells f (clusterStatusField f)
           then (let f = f\<lparr>clusterStatusField := curatorStatusVar f\<rparr>;
                     (err, t) = sdk_Update w (ClusterLoggingR (clusterValue f)) t
                 in (returned err, (f, t)))
           else (Ok, (f, t))
         else (Ok, (f, t)))"

definition CreateOrUpdateCuration :: "'s world \<Rightarrow> 's ClusterLogging \<Rightarrow> 's call list \<Rightarrow> outcome \<times> 's call list" where
  "CreateOrUpdateCuration w cluster t =
     (if CurationType cluster = CurationTypeCurator then
        (case createOrUpdateCuratorServiceAccount w cluster t of
           (Ok, t) \<Rightarrow>
             (case createOrUpdateCuratorConfigMap w cluster t of
                (Ok, t) \<Rightarrow>
                  (case createOrUpdateCuratorCronJob w cluster t of
                     (Ok, t) \<Rightarrow>
                       (case createOrUpdateCuratorSecret w cluster t of
                          (Ok, t) \<Rightarrow>
                            (case getCuratorStatus w (Namespace (ClusterMeta cluster)) t of
                               (Inl err, t) \<Rightarrow>
                                 (Failed (Errorf ''Failed to get status for Curator: '' err), t)
                             | (Inr curatorStatus, t) \<Rightarrow>
                                 (case RetryOnConflict (retrySteps w) (updateStatusAttempt w)
                                         (newStatusFrame cluster curatorStatus, t) of
                                    (Ok, (f, t)) \<Rightarrow> (Ok, t)
                                  | (Failed retryErr, (f, t)) \<Rightarrow>
                                      (Failed (Errorf
                                         ''Failed to update Cluster Logging Curator status: ''
                                         retryErr), t)
                                  | (Panicked p, (f, t)) \<Rightarrow> (Panicked p, t)))
                        | (err, t) \<Rightarrow> (err, t))
                   | (err, t) \<Rightarrow> (err, t))
              | (err, t) \<Rightarrow> (err, t))
         | (err, t) \<Rightarrow> (err, t))
      else
        (let (ignored, t) = removeCurator w cluster t in (Ok, t)))"

section \<open>Observations on the calls issued\<close>

fun touches :: "kind \<Rightarrow> 's call \<Rightarrow> bool" where
  "touches k (Create r) = (kindOf r = k)"
| "touches k (Get k' ns n) = (k' = k)"
| "touches k (Update r) = (kindOf r = k)"
| "touches k (Delete k' ns n) = (k' = k)"
| "touches k (ListStatus ns) = False"

fun isCreate :: "'s call \<Rightarrow> bool" where
  "isCreate (Create r) = True"
| "isCreate c = False"

fun isGet :: "'s call \<Rightarrow> bool" where
  "isGet (Get k ns n) = True"
| "isGet c = False"

fun isUpdate :: "'s call \<Rightarrow> bool" where
  "isUpdate (Update r) = True"
| "isUpdate c = False"

fun isDelete :: "'s call \<Rightarrow> bool" where
  "isDelete (Delete k ns n) = True"
| "isDelete c = False"

datatype verb = VCreate | VGet | VUpdate | VDelete | VList

text \<open>A call without its payload: the verb, the kind and the name of the target (the
  namespace for \<open>ListStatus\<close>).\<close>

fun describe :: "'s call \<Rightarrow> verb \<times> kind option \<times> string" where
  "describe (Create r) = (VCreate, Some (kindOf r), Name (metaOf r))"
| "describe (Get k ns n) = (VGet, Some k, n)"
| "describe (Update r) = (VUpdate, Some (kindOf r), Name (metaOf r))"
| "describe (Delete k ns n) = (VDelete, Some k, n)"
| "describe (ListStatus ns) = (VList, None, ns)"

text \<open>The step of the reconciliation a call belongs to, in the order of the source:
  identity, configuration bundle, scheduled jobs, credential bundle, status.\<close>

definition phase :: "'s call \<Rightarrow> nat" where
  "phase c =
     (if touches KServiceAccount c then 0
      else if touches KConfigMap c then 1
      else if touches KCronJob c then 2
      else if touches KSecret c then 3
      else 4)"

text \<open>\<open>extends P t t'\<close>: the trace \<open>t'\<close> is \<open>t\<close> followed by calls that all satisfy \<open>P\<close>.\<close>

definition extends :: "('s call \<Rightarrow> bool) \<Rightarrow> 's call list \<Rightarrow> 's call list \<Rightarrow> bool" where
  "extends P t t' = (\<exists>new. t' = t @ new \<and> list_all P new)"

text \<open>What \<open>isCuratorDifferent\<close> may overwrite, blanked out: two cron jobs that
  \<open>eraseMonitored\<close> maps to the same value agree on every field but the schedule, the
  suspended flag and the image of the first container.\<close>

definition eraseMonitored :: "CronJob \<Rightarrow> CronJob" where
  "eraseMonitored j =
     (let j = j\<lparr>Spec := (Spec j)\<lparr>Schedule := [], Suspend := None\<rparr>\<rparr>
      in case podContainers j of
           [] \<Rightarrow> j
         | c # cs \<Rightarrow> setPodContainers (c\<lparr>Image := []\<rparr> # cs) j)"

text \<open>The block that \<open>createOrUpdateCuratorCronJob\<close> repeats for each scheduled job:
  create, and in fully-managed mode fetch, diff and patch under the retry loop.\<close>

definition cronJobBlock :: "'s world \<Rightarrow> 's ClusterLogging \<Rightarrow> CronJob \<Rightarrow> string \<Rightarrow> 's call list \<Rightarrow> outcome \<times> 's call list" where
  "cronJobBlock w cluster job msg t =
     (let (err, created, t) = sdk_Create w (CronJobR job) t;
          job = decodeCronJob created job
      in case fatalUnless IsAlreadyExists msg err of
           Some e \<Rightarrow> (Failed e, t)
         | None \<Rightarrow>
             if ManagementState cluster = ManagementStateManaged
             then RetryOnConflict (retrySteps w) (updateCuratorIfRequired w job) t
             else (Ok, t))"

text \<open>The calls the scheduled-job step may issue for a cluster configuration.\<close>

definition cronJobCall :: "'s ClusterLogging \<Rightarrow> 's call \<Rightarrow> bool" where
  "cronJobCall cl c = (touches KCronJob c \<and>
      (isCreate c \<or> (ManagementState cl = ManagementStateManaged \<and> (isGet c \<or> isUpdate c))))"

text \<open>The calls a reconciliation of the enabled feature may issue, and the traces that
  grow by such calls in the order of the phases, up to phase \<open>k\<close>.\<close>

definition reconcileCall :: "'s ClusterLogging \<Rightarrow> 's call \<Rightarrow> bool" where
  "reconcileCall cl c =
     (case c of
        Create r \<Rightarrow> kindOf r \<noteq> KClusterLogging
      | Get k ns n \<Rightarrow>
          k = KClusterLogging \<or> (k = KCronJob \<and> ManagementState cl = ManagementStateManaged)
      | Update r \<Rightarrow>
          kindOf r = KClusterLogging
          \<or> (kindOf r = KCronJob \<and> ManagementState cl = ManagementStateManaged)
      | Delete k ns n \<Rightarrow> False
      | ListStatus ns \<Rightarrow> True)"

definition progress :: "'s ClusterLogging \<Rightarrow> nat \<Rightarrow> 's call list \<Rightarrow> 's call list \<Rightarrow> bool" where
  "progress cl k t t' =
     (\<exists>new. t' = t @ new \<and> sorted (map phase new) \<and> list_all (\<lambda>c. phase c \<le> k) new
            \<and> list_all (reconcileCall cl) new)"

text \<open>A call that reads back or updates one of the three static resources.\<close>

definition readsOrUpdatesStatic :: "'s call \<Rightarrow> bool" where
  "readsOrUpdatesStatic c =
     ((isGet c \<or> isUpdate c)
      \<and> (touches KServiceAccount c \<or> touches KConfigMap c \<or> touches KSecret c))"

section \<open>Concrete stores and cluster configurations\<close>

text \<open>A fully-managed cluster with the feature enabled, in the combined topology.\<close>

definition managedCluster :: "string ClusterLogging" where
  "managedCluster =
     \<lparr>ClusterMeta = newMeta ''instance'' ''openshift-logging'',
      ManagementState = ManagementStateManaged,
      CurationType = CurationTypeCurator,
      CuratorSchedule = [],
      CurationResources = None,
      Topology = Combined,
      CuratorStatus = ''stale''\<rparr>"

definition splitCluster :: "string ClusterLogging" where
  "splitCluster = managedCluster\<lparr>Topology := Split\<rparr>"

definition unmanagedCluster :: "string ClusterLogging" where
  "unmanagedCluster = managedCluster\<lparr>ManagementState := ManagementStateUnmanaged\<rparr>"

definition disabledCluster :: "string ClusterLogging" where
  "disabledCluster = managedCluster\<lparr>CurationType := CurationTypeOther []\<rparr>"

text \<open>A store in which every resource exists already (every creation answers "already
  exists"), the live cron job has drifted to the schedule \<open>0 0 * * *\<close>, and every
  other call succeeds.\<close>

definition driftedStore :: "string world" where
  "driftedStore =
     \<lparr>onCreate = (\<lambda>t r. Inl (StatusError AlreadyExists)),
      onGetCronJob = (\<lambda>t j. Inr (j\<lparr>Spec := (Spec j)\<lparr>Schedule := ''0 0 * * *''\<rparr>\<rparr>)),
      onGetClusterLogging = (\<lambda>t c. Inr (c\<lparr>CuratorStatus := ''stale''\<rparr>)),
      onUpdate = (\<lambda>t r. None),
      onDelete = (\<lambda>t k ns n. None),
      onCuratorStatus = (\<lambda>t ns. Inr ''fresh''),
      retrySteps = 5,
      componentImage = (\<lambda>n. ''logging-curator:v2''),
      fileContents = (\<lambda>f. []),
      workingDirFileContents = (\<lambda>f. []),
      defaultCuratorMemory = ''200Mi'',
      defaultCuratorCpuRequest = ''200m''\<rparr>"

text \<open>The same store when the cron job has been culled: \<open>Get\<close> answers "not found".\<close>

definition culledStore :: "string world" where
  "culledStore = driftedStore\<lparr>onGetCronJob := (\<lambda>t j. Inl (StatusError NotFound))\<rparr>"

text \<open>The same store when the deletion of the service account fails.\<close>

definition failingStore :: "string world" where
  "failingStore = driftedStore\<lparr>onDelete :=
     (\<lambda>t k ns n. if k = KServiceAccount then Some (StatusError Unknown) else None)\<rparr>"

definition desiredJob :: CronJob where
  "desiredJob = newCuratorCronJob driftedStore managedCluster ''curator'' ''elasticsearch''"

text \<open>The same store when another writer keeps changing the cluster configuration: every
  update of it answers a version conflict, and its stored status stays \<open>stale\<close>.\<close>

definition conflictStore :: "string world" where
  "conflictStore = driftedStore\<lparr>onUpdate :=
     (\<lambda>t r. if kindOf r = KClusterLogging then Some (StatusError Conflict) else None)\<rparr>"

text \<open>A store that has no cron job yet: the creation succeeds and the server answers the
  job with the suspended flag defaulted to false, while the live job fetched afterwards
  has been suspended by another writer.\<close>

definition defaultingStore :: "string world" where
  "defaultingStore = driftedStore\<lparr>
     onCreate := (\<lambda>t r. case r of
                    CronJobR j \<Rightarrow> Inr (CronJobR (j\<lparr>Spec := (Spec j)\<lparr>Suspend := Some False\<rparr>\<rparr>))
                  | _ \<Rightarrow> Inr r),
     onGetCronJob := (\<lambda>t j. Inr (j\<lparr>Spec := (Spec j)\<lparr>Suspend := Some True\<rparr>\<rparr>))\<rparr>"

text \<open>The live job of \<open>driftedStore\<close> for \<open>desiredJob\<close>.\<close>

definition driftedJob :: CronJob where
  "driftedJob = desiredJob\<lparr>Spec := (Spec desiredJob)\<lparr>Schedule := ''0 0 * * *''\<rparr>\<rparr>"

section \<open>Traces\<close>

lemma extends_refl: "extends P t t"
  by (simp add: extends_def)

lemma extends_trans: "extends P t t1 \<Longrightarrow> extends P t1 t2 \<Longrightarrow> extends P t t2"
  by (auto simp: extends_def)

lemma extends_mono: "extends P t t' \<Longrightarrow> (\<And>c. P c \<Longrightarrow> Q c) \<Longrightarrow> extends Q t t'"
  by (auto simp: extends_def list_all_iff)

lemma serviceAccount_trace:
  "snd (createOrUpdateCuratorServiceAccount w c t) =
     t @ [Create (ServiceAccountR (AddOwnerRefToObject (AsOwner c)
            (newMeta ''curator'' (Namespace (ClusterMeta c)))))]"
  by (simp add: createOrUpdateCuratorServiceAccount_def sdk_Create_def Let_def split: sum.splits)

lemma configMap_trace:
  "\<exists>m d. snd (createOrUpdateCuratorConfigMap w c t) = t @ [Create (ConfigMapR m d)]"
  by (simp add: createOrUpdateCuratorConfigMap_def sdk_Create_def Let_def split: sum.splits)

lemma secret_trace:
  "\<exists>m d. snd (createOrUpdateCuratorSecret w c t) = t @ [Create (SecretR m d)]"
  by (simp add: createOrUpdateCuratorSecret_def utils_CreateOrUpdateSecret_def sdk_Create_def Let_def split: sum.splits)

lemma updateCuratorIfRequired_trace:
  "extends (\<lambda>c. touches KCronJob c \<and> (isGet c \<or> isUpdate c)) t
     (snd (updateCuratorIfRequired w d t))"
  by (auto simp: updateCuratorIfRequired_def sdk_Get_def sdk_Update_def extends_def Let_def
           split: sum.splits prod.splits)

lemma RetryOnConflict_from_extends:
  assumes "\<And>s. extends P (tr s) (tr (snd (fn s)))"
  shows "extends P (tr s) (tr (snd (RetryOnConflict_from n fn (l :: error option) s)))"
proof (induction n arbitrary: l s)
  case 0
  show ?case by (simp add: extends_refl)
next
  case (Suc n)
  obtain r s' where fs: "fn s = (r, s')" by (cases "fn s")
  have step: "extends P (tr s) (tr s')" using assms [of s] fs by simp
  show ?case
  proof (cases r)
    case Ok
    then show ?thesis using fs step by simp
  next
    case (Failed e)
    then show ?thesis
      using fs step Suc.IH [where l = "Some e" and s = s'] by (auto intro: extends_trans)
  next
    case (Panicked p)
    then show ?thesis using fs step by simp
  qed
qed

lemma RetryOnConflict_extends:
  assumes "\<And>s. extends P (tr s) (tr (snd (fn s)))"
  shows "extends P (tr s) (tr (snd (RetryOnConflict n fn s)))"
  unfolding RetryOnConflict_def using assms by (rule RetryOnConflict_from_extends)


lemma retry_update_extends:
  "extends (\<lambda>c. touches KCronJob c \<and> (isGet c \<or> isUpdate c)) t
     (snd (RetryOnConflict n (updateCuratorIfRequired w d) t))"
  using RetryOnConflict_extends [where tr = "\<lambda>s. s" and fn = "updateCuratorIfRequired w d"]
        updateCuratorIfRequired_trace
  by blast

lemma create_cronJob_trace: "snd (snd (sdk_Create w (CronJobR j) t)) = t @ [Create (CronJobR j)]"
  by (simp add: sdk_Create_def split: sum.splits)

lemma retry_cronJob_extends:
  "ManagementState cl = ManagementStateManaged \<Longrightarrow>
   extends (cronJobCall cl) t (snd (RetryOnConflict n (updateCuratorIfRequired w d) t))"
  by (rule extends_mono [OF retry_update_extends]) (simp add: cronJobCall_def)

lemma createOrUpdateCuratorCronJob_blocks:
  "createOrUpdateCuratorCronJob w cluster t =
     (if AllInOne cluster
      then cronJobBlock w cluster (newCuratorCronJob w cluster ''curator'' ''elasticsearch'')
             ''Failure constructing Curator cronjob: '' t
      else (case cronJobBlock w cluster
                   (newCuratorCronJob w cluster ''curator-app'' ''elasticsearch-app'')
                   ''Failure constructing Curator App cronjob: '' t of
              (Ok, t) \<Rightarrow>
                cronJobBlock w cluster
                  (newCuratorCronJob w cluster ''curator-infra'' ''elasticsearch-infra'')
                  ''Failure constructing Curator Infra cronjob: '' t
            | (r, t) \<Rightarrow> (r, t)))"
proof (cases "AllInOne cluster")
  case True
  then show ?thesis
    by (simp add: createOrUpdateCuratorCronJob_def cronJobBlock_def Let_def
             split: prod.splits option.splits)
next
  case False
  then show ?thesis
    by (simp add: createOrUpdateCuratorCronJob_def cronJobBlock_def Let_def
             split: prod.splits option.splits outcome.splits)
qed

lemma cronJobBlock_trace:
  "\<exists>rest. snd (cronJobBlock w cl j msg t) = t @ Create (CronJobR j) # rest
      \<and> list_all (cronJobCall cl) rest"
proof -
  obtain err created t1 where c: "sdk_Create w (CronJobR j) t = (err, created, t1)"
    by (cases "sdk_Create w (CronJobR j) t") auto
  have t1: "t1 = t @ [Create (CronJobR j)]"
    using create_cronJob_trace [of w j t] c by simp
  show ?thesis
  proof (cases "fatalUnless IsAlreadyExists msg err")
    case (Some e)
    then show ?thesis using c t1 by (simp add: cronJobBlock_def)
  next
    case None
    show ?thesis
    proof (cases "ManagementState cl = ManagementStateManaged")
      case True
      have "extends (cronJobCall cl) t1
              (snd (RetryOnConflict (retrySteps w)
                      (updateCuratorIfRequired w (decodeCronJob created j)) t1))"
        using True by (rule retry_cronJob_extends)
      then show ?thesis
        using c None True t1 by (auto simp: cronJobBlock_def extends_def)
    next
      case False
      then show ?thesis using c None t1 by (simp add: cronJobBlock_def)
    qed
  qed
qed

lemma createOrUpdateCuratorCronJob_first:
  "\<exists>j rest. snd (createOrUpdateCuratorCronJob w cl t) = t @ Create (CronJobR j) # rest
      \<and> list_all (cronJobCall cl) rest"
proof (cases "AllInOne cl")
  case True
  then show ?thesis
    using cronJobBlock_trace [of w cl _ _ t]
    by (simp add: createOrUpdateCuratorCronJob_blocks) blast
next
  case False
  let ?app = "newCuratorCronJob w cl ''curator-app'' ''elasticsearch-app''"
  let ?b = "cronJobBlock w cl ?app ''Failure constructing Curator App cronjob: '' t"
  obtain r t1 where b: "?b = (r, t1)" by (cases ?b)
  obtain rest1 where r1: "t1 = t @ Create (CronJobR ?app) # rest1" "list_all (cronJobCall cl) rest1"
    using cronJobBlock_trace [of w cl ?app _ t] b by (metis snd_conv)
  show ?thesis
  proof (cases r)
    case Ok
    let ?infra = "newCuratorCronJob w cl ''curator-infra'' ''elasticsearch-infra''"
    obtain rest2 where r2:
        "snd (cronJobBlock w cl ?infra ''Failure constructing Curator Infra cronjob: '' t1) =
           t1 @ Create (CronJobR ?infra) # rest2"
        "list_all (cronJobCall cl) rest2"
      using cronJobBlock_trace [of w cl ?infra _ t1] by blast
    have c: "cronJobCall cl (Create (CronJobR ?infra))"
      by (simp add: cronJobCall_def)
    have "snd (createOrUpdateCuratorCronJob w cl t) =
            t @ Create (CronJobR ?app) # (rest1 @ Create (CronJobR ?infra) # rest2)"
      using False b Ok r1(1) r2(1) by (simp add: createOrUpdateCuratorCronJob_blocks)
    moreover have "list_all (cronJobCall cl) (rest1 @ Create (CronJobR ?infra) # rest2)"
      using r1(2) r2(2) c by simp
    ultimately show ?thesis by blast
  next
    case (Failed e)
    then show ?thesis using False b r1 by (auto simp: createOrUpdateCuratorCronJob_blocks)
  next
    case (Panicked p)
    then show ?thesis using False b r1 by (auto simp: createOrUpdateCuratorCronJob_blocks)
  qed
qed

lemma createOrUpdateCuratorCronJob_trace:
  "extends (cronJobCall cl) t (snd (createOrUpdateCuratorCronJob w cl t))"
  using createOrUpdateCuratorCronJob_first [of w cl t]
  by (auto simp: extends_def cronJobCall_def)

lemma progress_start: "progress cl k t t"
  by (simp add: progress_def)

lemma progress_step:
  assumes "progress cl k t a"
    and "extends (\<lambda>c. phase c = k' \<and> reconcileCall cl c) a b"
    and "k \<le> k'"
  shows "progress cl k' t b"
proof -
  from assms(1) obtain n1 where n1: "a = t @ n1" "sorted (map phase n1)"
      "list_all (\<lambda>c. phase c \<le> k) n1" "list_all (reconcileCall cl) n1"
    by (auto simp: progress_def)
  from assms(2) obtain n2 where n2: "b = a @ n2"
      "list_all (\<lambda>c. phase c = k' \<and> reconcileCall cl c) n2"
    by (auto simp: extends_def)
  have s2: "sorted (map phase n2)"
    using n2(2) by (induction n2) (auto simp: list_all_iff)
  have "sorted (map phase (n1 @ n2))"
    using n1(2,3) n2(2) s2 assms(3) by (fastforce simp: sorted_append list_all_iff)
  moreover have "list_all (\<lambda>c. phase c \<le> k') (n1 @ n2)"
    using n1(3) n2(2) assms(3) by (fastforce simp: list_all_iff)
  moreover have "list_all (reconcileCall cl) (n1 @ n2)"
    using n1(4) n2(2) by (auto simp: list_all_iff)
  ultimately show ?thesis
    using n1(1) n2(1) by (auto simp: progress_def)
qed

lemma progress_mono: "progress cl k t t' \<Longrightarrow> k \<le> k' \<Longrightarrow> progress cl k' t t'"
  by (rule progress_step [where a = t' and k = k]) (simp_all add: extends_refl)

lemma step_serviceAccount:
  "extends (\<lambda>c. phase c = 0 \<and> reconcileCall cl c) t
     (snd (createOrUpdateCuratorServiceAccount w cl t))"
  by (simp add: createOrUpdateCuratorServiceAccount_def sdk_Create_def Let_def extends_def
                phase_def reconcileCall_def split: sum.splits)

lemma step_configMap:
  "extends (\<lambda>c. phase c = 1 \<and> reconcileCall cl c) t
     (snd (createOrUpdateCuratorConfigMap w cl t))"
  by (simp add: createOrUpdateCuratorConfigMap_def sdk_Create_def Let_def extends_def
                phase_def reconcileCall_def split: sum.splits)

lemma step_cronJob:
  "extends (\<lambda>c. phase c = 2 \<and> reconcileCall cl c) t
     (snd (createOrUpdateCuratorCronJob w cl t))"
proof (rule extends_mono [OF createOrUpdateCuratorCronJob_trace [of cl]])
  fix c :: "'a call"
  assume "cronJobCall cl c"
  then show "phase c = 2 \<and> reconcileCall cl c"
    by (cases c) (auto simp: cronJobCall_def phase_def reconcileCall_def)
qed

lemma step_secret:
  "extends (\<lambda>c. phase c = 3 \<and> reconcileCall cl c) t
     (snd (createOrUpdateCuratorSecret w cl t))"
  by (simp add: createOrUpdateCuratorSecret_def utils_CreateOrUpdateSecret_def sdk_Create_def
                Let_def extends_def phase_def reconcileCall_def split: sum.splits)

lemma step_status:
  "extends (\<lambda>c. phase c = 4 \<and> reconcileCall cl c) t (snd (getCuratorStatus w ns t))"
  by (simp add: getCuratorStatus_def extends_def phase_def reconcileCall_def)

lemma updateStatusAttempt_trace:
  "extends (\<lambda>c. phase c = 4 \<and> reconcileCall cl c) (snd s)
     (snd (snd (updateStatusAttempt w s)))"
  by (cases s)
     (auto simp: updateStatusAttempt_def DoesClusterLoggingExist_def sdk_Update_def Let_def
                 extends_def phase_def reconcileCall_def
           split: sum.splits option.splits)

lemma step_statusRetry:
  "extends (\<lambda>c. phase c = 4 \<and> reconcileCall cl c) t
     (snd (snd (RetryOnConflict n (updateStatusAttempt w) (f, t))))"
  using RetryOnConflict_extends [where tr = snd and fn = "updateStatusAttempt w"
          and s = "(f, t)" and n = n
          and P = "\<lambda>c. phase c = 4 \<and> reconcileCall cl c"]
        updateStatusAttempt_trace [of cl]
  by simp

lemma removeCurator_unmanaged:
  "ManagementState cl \<noteq> ManagementStateManaged \<Longrightarrow> removeCurator w cl t = (Ok, t)"
  by (simp add: removeCurator_def)

lemma utils_Remove_trace:
  "snd (utils_Remove k what w cl n t) = t @ [Delete k (Namespace (ClusterMeta cl)) n]"
  by (simp add: utils_Remove_def sdk_Delete_def)

lemma removeCurator_trace:
  "extends isDelete t (snd (removeCurator w cl t))"
proof -
  have r: "\<And>k what n t r t'. utils_Remove k what w cl n t = (r, t') \<Longrightarrow>
             t' = t @ [Delete k (Namespace (ClusterMeta cl)) n]"
    using utils_Remove_trace by (metis snd_conv)
  show ?thesis
    unfolding removeCurator_def
    by (auto simp: extends_def split: prod.splits outcome.splits dest!: r)
qed


lemma CreateOrUpdateCuration_enabled_progress:
  assumes en: "CurationType cl = CurationTypeCurator"
  shows "progress cl 4 t (snd (CreateOrUpdateCuration w cl t))"
proof -
  obtain r0 t0 where s0: "createOrUpdateCuratorServiceAccount w cl t = (r0, t0)"
    by (cases "createOrUpdateCuratorServiceAccount w cl t")
  obtain r1 t1 where s1: "createOrUpdateCuratorConfigMap w cl t0 = (r1, t1)"
    by (cases "createOrUpdateCuratorConfigMap w cl t0")
  obtain r2 t2 where s2: "createOrUpdateCuratorCronJob w cl t1 = (r2, t2)"
    by (cases "createOrUpdateCuratorCronJob w cl t1")
  obtain r3 t3 where s3: "createOrUpdateCuratorSecret w cl t2 = (r3, t3)"
    by (cases "createOrUpdateCuratorSecret w cl t2")
  obtain r4 t4 where s4: "getCuratorStatus w (Namespace (ClusterMeta cl)) t3 = (r4, t4)"
    by (cases "getCuratorStatus w (Namespace (ClusterMeta cl)) t3")
  have p0: "progress cl 0 t t0"
    using progress_step [OF progress_start step_serviceAccount, of 0 cl t w] s0 by simp
  have p1: "progress cl 1 t t1"
    using progress_step [OF p0 step_configMap, of w] s1 by simp
  have p2: "progress cl 2 t t2"
    using progress_step [OF p1 step_cronJob, of w] s2 by simp
  have p3: "progress cl 3 t t3"
    using progress_step [OF p2 step_secret, of w] s3 by simp
  have p4: "progress cl 4 t t4"
    using progress_step [OF p3 step_status, of w "Namespace (ClusterMeta cl)"] s4 by simp
  have p5: "progress cl 4 t (snd (snd (RetryOnConflict (retrySteps w)
                (updateStatusAttempt w) (newStatusFrame cl st, t4))))" for st
    by (rule progress_step [OF p4 step_statusRetry]) simp
  note m = progress_mono [OF p0, of 4] progress_mono [OF p1, of 4] progress_mono [OF p2, of 4]
           progress_mono [OF p3, of 4]
  show ?thesis
  proof (cases "r0 = Ok \<and> r1 = Ok \<and> r2 = Ok \<and> r3 = Ok")
    case False
    then show ?thesis
      using en s0 s1 s2 s3 m
      by (cases r0; cases r1; cases r2; cases r3)
         (simp_all add: CreateOrUpdateCuration_def)
  next
    case True
    show ?thesis
    proof (cases r4)
      case (Inl e)
      then show ?thesis
        using en True s0 s1 s2 s3 s4 p4 by (simp add: CreateOrUpdateCuration_def)
    next
      case (Inr st)
      obtain r5 c5 t5 where s5: "RetryOnConflict (retrySteps w)
                (updateStatusAttempt w) (newStatusFrame cl st, t4) = (r5, c5, t5)"
        by (cases "RetryOnConflict (retrySteps w) (updateStatusAttempt w) (newStatusFrame cl st, t4)") auto
      then show ?thesis
        using en True s0 s1 s2 s3 s4 Inr p5 [of st]
        by (cases r5) (simp_all add: CreateOrUpdateCuration_def)
    qed
  qed
qed

lemma CreateOrUpdateCuration_disabled:
  "CurationType cl \<noteq> CurationTypeCurator \<Longrightarrow>
   CreateOrUpdateCuration w cl t = (Ok, snd (removeCurator w cl t))"
  by (simp add: CreateOrUpdateCuration_def split: prod.splits)


lemma updateCuratorIfRequired_absent:
  assumes "onGetCronJob w t desired = Inl e"
  shows "updateCuratorIfRequired w desired t =
           (if IsNotFound e then Ok else Failed (Errorf ''Failed to get Curator cronjob: '' e),
            t @ [Get KCronJob (Namespace (Meta desired)) (Name (Meta desired))])"
  using assms by (simp add: updateCuratorIfRequired_def sdk_Get_def)

lemma isCuratorDifferent_frame:
  assumes "isCuratorDifferent live desired = Inr (patched, different)"
  shows "eraseMonitored patched = eraseMonitored live \<and> Meta patched = Meta live"
  using assms
  by (auto simp: isCuratorDifferent_def eraseMonitored_def podContainers_def
                 setPodContainers_def Let_def
           split: option.splits list.splits if_splits)


lemmas model_defs =
  newCuratorCronJob_def utils_Container_def utils_PodSpec_def utils_CronJob_def newMeta_def
  AddOwnerRefToObject_def AsOwner_def defaultSchedule_def podContainers_def
  setPodContainers_def decodeCronJob_def newStatusFrame_def clusterValue_def Let_def

lemmas store_defs =
  driftedStore_def culledStore_def failingStore_def conflictStore_def defaultingStore_def
  managedCluster_def splitCluster_def
  unmanagedCluster_def disabledCluster_def desiredJob_def

subsection \<open>The diff policy\<close>

text \<open>
  Claim C5.  For every pair of a live and a desired scheduled job, the flag that
  \<open>isCuratorDifferent\<close> reports is true if and only if the schedule expressions are
  unequal, or both suspended flags are present and unequal, or the images of the first
  containers are unequal; no other field enters the flag.  The function reports a flag
  exactly when both container lists are non-empty, and panics otherwise.
\<close>

theorem isCuratorDifferent_changed_iff:
  "map_sum id snd (isCuratorDifferent current desired) =
     (if podContainers current = [] \<or> podContainers desired = [] then Inl IndexOutOfRange
      else Inr (Schedule (Spec current) \<noteq> Schedule (Spec desired)
                \<or> (Suspend (Spec current) \<noteq> None \<and> Suspend (Spec desired) \<noteq> None
                    \<and> Suspend (Spec current) \<noteq> Suspend (Spec desired))
                \<or> Image (hd (podContainers current)) \<noteq> Image (hd (podContainers desired))))"
  by (auto simp: isCuratorDifferent_def podContainers_def Let_def
           split: option.splits list.splits)

theorem isCuratorDifferent_changed_iff_witness:
  "map_sum id snd (isCuratorDifferent driftedJob desiredJob) = Inr True
   \<and> map_sum id snd (isCuratorDifferent desiredJob desiredJob) = Inr False"
proof -
  have d: "podContainers desiredJob \<noteq> []"
    by (simp add: store_defs model_defs)
  have l: "podContainers driftedJob \<noteq> []"
    using d by (simp add: driftedJob_def podContainers_def)
  have s: "Schedule (Spec driftedJob) \<noteq> Schedule (Spec desiredJob)"
    by (simp add: driftedJob_def store_defs model_defs)
  show ?thesis
    using isCuratorDifferent_changed_iff [of driftedJob desiredJob]
          isCuratorDifferent_changed_iff [of desiredJob desiredJob] l d s
    by simp
qed

text \<open>
  Claim C10.  \<open>isCuratorDifferent\<close> is partial: it returns exactly when the container
  lists of both jobs are non-empty and panics with an index out of range otherwise; a live
  job fetched from the store with no container makes \<open>updateCuratorIfRequired\<close> panic.
\<close>

theorem isCuratorDifferent_partial:
  "((\<exists>r. isCuratorDifferent current desired = Inr r)
      = (podContainers current \<noteq> [] \<and> podContainers desired \<noteq> []))
   \<and> ((isCuratorDifferent current desired = Inl IndexOutOfRange)
      = (podContainers current = [] \<or> podContainers desired = []))
   \<and> (onGetCronJob w t desired = Inr current \<and> podContainers current = []
        \<longrightarrow> fst (updateCuratorIfRequired w desired t) = Panicked IndexOutOfRange)"
proof (intro conjI)
  show "(\<exists>r. isCuratorDifferent current desired = Inr r)
      = (podContainers current \<noteq> [] \<and> podContainers desired \<noteq> [])"
    by (auto simp: isCuratorDifferent_def podContainers_def Let_def
             split: option.splits list.splits)
  show p: "(isCuratorDifferent current desired = Inl IndexOutOfRange)
      = (podContainers current = [] \<or> podContainers desired = [])"
    by (auto simp: isCuratorDifferent_def podContainers_def Let_def
             split: option.splits list.splits)
  show "onGetCronJob w t desired = Inr current \<and> podContainers current = []
        \<longrightarrow> fst (updateCuratorIfRequired w desired t) = Panicked IndexOutOfRange"
    using p by (auto simp: updateCuratorIfRequired_def sdk_Get_def)
qed

theorem isCuratorDifferent_partial_witness:
  "isCuratorDifferent (setPodContainers [] desiredJob) desiredJob = Inl IndexOutOfRange
   \<and> fst (updateCuratorIfRequired
            (driftedStore\<lparr>onGetCronJob := (\<lambda>t j. Inr (setPodContainers [] j))\<rparr>)
            desiredJob []) = Panicked IndexOutOfRange"
  using isCuratorDifferent_partial [of "setPodContainers [] desiredJob" desiredJob
          "driftedStore\<lparr>onGetCronJob := (\<lambda>t j. Inr (setPodContainers [] j))\<rparr>" "[]"]
  by (simp add: podContainers_def setPodContainers_def)

subsection \<open>Fetching the live job\<close>

text \<open>
  Claim C7.  When the \<open>Get\<close> of \<open>updateCuratorIfRequired\<close> fails, the only call issued is
  that \<open>Get\<close>; a "not found" error gives success, and any other error is returned,
  wrapped, as a failure.
\<close>

theorem updateCuratorIfRequired_get_error:
  assumes "onGetCronJob w t desired = Inl e"
  shows "updateCuratorIfRequired w desired t =
           (if IsNotFound e then Ok else Failed (Errorf ''Failed to get Curator cronjob: '' e),
            t @ [Get KCronJob (Namespace (Meta desired)) (Name (Meta desired))])"
  using assms by (simp add: updateCuratorIfRequired_def sdk_Get_def)

theorem updateCuratorIfRequired_get_error_witness:
  "onGetCronJob culledStore [] desiredJob = Inl (StatusError NotFound)
   \<and> updateCuratorIfRequired culledStore desiredJob [] =
       (Ok, [Get KCronJob ''openshift-logging'' ''curator''])
   \<and> updateCuratorIfRequired
        (driftedStore\<lparr>onGetCronJob := (\<lambda>t j. Inl (StatusError Unknown))\<rparr>) desiredJob [] =
       (Failed (Errorf ''Failed to get Curator cronjob: '' (StatusError Unknown)),
        [Get KCronJob ''openshift-logging'' ''curator''])"
proof -
  have h1: "onGetCronJob culledStore [] desiredJob = Inl (StatusError NotFound)"
    by (simp add: culledStore_def)
  have h2: "onGetCronJob (driftedStore\<lparr>onGetCronJob := (\<lambda>t j. Inl (StatusError Unknown))\<rparr>)
              [] desiredJob = Inl (StatusError Unknown)"
    by simp
  have m: "Namespace (Meta desiredJob) = ''openshift-logging''" "Name (Meta desiredJob) = ''curator''"
    by (simp_all add: store_defs model_defs)
  show ?thesis
    using updateCuratorIfRequired_get_error [OF h1] updateCuratorIfRequired_get_error [OF h2] h1 m
    by (simp add: IsNotFound_def)
qed


lemma updateCuratorIfRequired_present:
  assumes "onGetCronJob w t desired = Inr live"
  shows "updateCuratorIfRequired w desired t =
           (case isCuratorDifferent live desired of
              Inl p \<Rightarrow> (Panicked p, t @ [Get KCronJob (Namespace (Meta desired)) (Name (Meta desired))])
            | Inr (patched, different) \<Rightarrow>
                if different
                then (returned (onUpdate w
                        (t @ [Get KCronJob (Namespace (Meta desired)) (Name (Meta desired))])
                        (CronJobR patched)),
                      t @ [Get KCronJob (Namespace (Meta desired)) (Name (Meta desired)),
                           Update (CronJobR patched)])
                else (Ok, t @ [Get KCronJob (Namespace (Meta desired)) (Name (Meta desired))]))"
  using assms
  by (simp add: updateCuratorIfRequired_def sdk_Get_def sdk_Update_def
           split: sum.splits prod.splits)

text \<open>
  Claim C6.  Every object that \<open>updateCuratorIfRequired\<close> submits to \<open>Update\<close> is a cron
  job that agrees with the live job just fetched on every field but the schedule, the
  suspended flag and the image of the first container; name and namespace are those of
  the live job.
\<close>

theorem update_frame:
  assumes "snd (updateCuratorIfRequired w desired t) = t @ new"
    and "Update x \<in> set new"
  shows "\<exists>live patched. onGetCronJob w t desired = Inr live \<and> x = CronJobR patched
           \<and> eraseMonitored patched = eraseMonitored live
           \<and> Name (Meta patched) = Name (Meta live)
           \<and> Namespace (Meta patched) = Namespace (Meta live)"
proof (cases "onGetCronJob w t desired")
  case (Inl e)
  then show ?thesis
    using assms updateCuratorIfRequired_absent [OF Inl] by (auto split: if_splits)
next
  case (Inr live)
  show ?thesis
  proof (cases "isCuratorDifferent live desired")
    case (Inl p)
    then show ?thesis
      using assms updateCuratorIfRequired_present [OF Inr] by auto
  next
    case r: (Inr pd)
    obtain patched different where pd: "pd = (patched, different)" by (cases pd)
    have f: "eraseMonitored patched = eraseMonitored live \<and> Meta patched = Meta live"
      using isCuratorDifferent_frame r pd by blast
    show ?thesis
      using assms updateCuratorIfRequired_present [OF Inr] r pd f Inr
      by (auto split: if_splits)
  qed
qed

theorem update_frame_witness:
  "snd (updateCuratorIfRequired driftedStore desiredJob []) =
      [] @ [Get KCronJob ''openshift-logging'' ''curator'', Update (CronJobR desiredJob)]
   \<and> onGetCronJob driftedStore [] desiredJob = Inr driftedJob
   \<and> eraseMonitored desiredJob = eraseMonitored driftedJob
   \<and> Name (Meta desiredJob) = Name (Meta driftedJob)
   \<and> Namespace (Meta desiredJob) = Namespace (Meta driftedJob)"
proof -
  have g: "onGetCronJob driftedStore [] desiredJob = Inr driftedJob"
    by (simp add: driftedStore_def driftedJob_def)
  have m: "Namespace (Meta desiredJob) = ''openshift-logging''" "Name (Meta desiredJob) = ''curator''"
    by (simp_all add: store_defs model_defs)
  have d: "isCuratorDifferent driftedJob desiredJob = Inr (desiredJob, True)"
    by (simp add: isCuratorDifferent_def driftedJob_def store_defs model_defs)
  have tr: "snd (updateCuratorIfRequired driftedStore desiredJob []) =
      [] @ [Get KCronJob ''openshift-logging'' ''curator'', Update (CronJobR desiredJob)]"
    using updateCuratorIfRequired_present [OF g] d m by simp
  have "Update (CronJobR desiredJob)
          \<in> set [Get KCronJob ''openshift-logging'' ''curator'', Update (CronJobR desiredJob)]"
    by simp
  from update_frame [OF tr this] g tr show ?thesis by auto
qed


lemma CreateOrUpdateCuration_calls:
  "\<exists>new. snd (CreateOrUpdateCuration w cl t) = t @ new
     \<and> list_all (\<lambda>c. isDelete c \<or> reconcileCall cl c) new"
proof (cases "CurationType cl = CurationTypeCurator")
  case True
  then show ?thesis
    using CreateOrUpdateCuration_enabled_progress [OF True, of t w]
    by (auto simp: progress_def list_all_iff)
next
  case False
  then show ?thesis
    using removeCurator_trace [of t w cl]
    by (auto simp: CreateOrUpdateCuration_disabled extends_def list_all_iff)
qed

subsection \<open>The static resources\<close>

text \<open>
  Claim C2.  The steps for the service account, the config map and the secret issue
  \<open>Create\<close> calls only, whatever the store answers; and no call of a whole
  reconciliation reads back or updates a service account, a config map or a secret.
\<close>

theorem static_resources_create_only:
  "snd (createOrUpdateCuratorServiceAccount w cl t) =
     t @ [Create (ServiceAccountR (AddOwnerRefToObject (AsOwner cl)
            (newMeta ''curator'' (Namespace (ClusterMeta cl)))))]
   \<and> list_all isCreate (drop (length t) (snd (createOrUpdateCuratorConfigMap w cl t)))
   \<and> list_all isCreate (drop (length t) (snd (createOrUpdateCuratorSecret w cl t)))
   \<and> (\<exists>new. snd (CreateOrUpdateCuration w cl t) = t @ new
         \<and> list_all (\<lambda>c. \<not> readsOrUpdatesStatic c) new)"
proof (intro conjI)
  show "snd (createOrUpdateCuratorServiceAccount w cl t) =
     t @ [Create (ServiceAccountR (AddOwnerRefToObject (AsOwner cl)
            (newMeta ''curator'' (Namespace (ClusterMeta cl)))))]"
    by (rule serviceAccount_trace)
  show "list_all isCreate (drop (length t) (snd (createOrUpdateCuratorConfigMap w cl t)))"
    using configMap_trace [of w cl t] by auto
  show "list_all isCreate (drop (length t) (snd (createOrUpdateCuratorSecret w cl t)))"
    using secret_trace [of w cl t] by auto
  obtain new where new: "snd (CreateOrUpdateCuration w cl t) = t @ new"
      "list_all (\<lambda>c. isDelete c \<or> reconcileCall cl c) new"
    using CreateOrUpdateCuration_calls by blast
  have "\<not> readsOrUpdatesStatic c" if "isDelete c \<or> reconcileCall cl c" for c :: "'a call"
    using that by (cases c) (auto simp: readsOrUpdatesStatic_def reconcileCall_def)
  then have "list_all (\<lambda>c. \<not> readsOrUpdatesStatic c) new"
    using new(2) by (auto simp: list_all_iff)
  then show "\<exists>new. snd (CreateOrUpdateCuration w cl t) = t @ new
         \<and> list_all (\<lambda>c. \<not> readsOrUpdatesStatic c) new"
    using new(1) by blast
qed

theorem static_resources_create_only_witness:
  "list_all (\<lambda>c. \<not> readsOrUpdatesStatic c) (snd (CreateOrUpdateCuration driftedStore managedCluster []))
   \<and> list_all isCreate (snd (createOrUpdateCuratorSecret driftedStore managedCluster []))"
  using static_resources_create_only [of driftedStore managedCluster "[]"] by simp

subsection \<open>Unmanaged mode\<close>

text \<open>
  Claim C9.  When the cluster is not in fully-managed mode, \<open>removeCurator\<close> returns
  success without any call, the scheduled-job step issues \<open>Create\<close> calls only, and a
  reconciliation issues no deletion and neither fetches nor updates a scheduled job.
\<close>

theorem unmanaged_untouched:
  assumes "ManagementState cl \<noteq> ManagementStateManaged"
  shows "removeCurator w cl t = (Ok, t)
     \<and> (\<exists>new. snd (createOrUpdateCuratorCronJob w cl t) = t @ new \<and> list_all isCreate new)
     \<and> (\<exists>new. snd (CreateOrUpdateCuration w cl t) = t @ new
           \<and> list_all (\<lambda>c. \<not> isDelete c \<and> \<not> (touches KCronJob c \<and> (isGet c \<or> isUpdate c))) new)"
proof (intro conjI)
  show r: "removeCurator w cl t = (Ok, t)"
    using assms by (rule removeCurator_unmanaged)
  show "\<exists>new. snd (createOrUpdateCuratorCronJob w cl t) = t @ new \<and> list_all isCreate new"
    using createOrUpdateCuratorCronJob_trace [of cl t w] assms
    by (auto simp: extends_def cronJobCall_def list_all_iff)
  show "\<exists>new. snd (CreateOrUpdateCuration w cl t) = t @ new
           \<and> list_all (\<lambda>c. \<not> isDelete c \<and> \<not> (touches KCronJob c \<and> (isGet c \<or> isUpdate c))) new"
  proof (cases "CurationType cl = CurationTypeCurator")
    case True
    obtain new where new: "snd (CreateOrUpdateCuration w cl t) = t @ new"
        "list_all (reconcileCall cl) new"
      using CreateOrUpdateCuration_enabled_progress [OF True, of t w]
      by (auto simp: progress_def)
    have "\<not> isDelete c \<and> \<not> (touches KCronJob c \<and> (isGet c \<or> isUpdate c))"
      if "reconcileCall cl c" for c :: "'a call"
      using that assms by (cases c) (auto simp: reconcileCall_def)
    then show ?thesis using new by (auto simp: list_all_iff)
  next
    case False
    then show ?thesis using r by (simp add: CreateOrUpdateCuration_disabled)
  qed
qed

theorem unmanaged_untouched_witness:
  "ManagementState unmanagedCluster \<noteq> ManagementStateManaged
   \<and> removeCurator driftedStore unmanagedCluster [] = (Ok, [])
   \<and> list_all isCreate (snd (createOrUpdateCuratorCronJob driftedStore unmanagedCluster []))
   \<and> list_all (\<lambda>c. \<not> isDelete c \<and> \<not> (touches KCronJob c \<and> (isGet c \<or> isUpdate c)))
        (snd (CreateOrUpdateCuration driftedStore unmanagedCluster []))"
proof -
  have h: "ManagementState unmanagedCluster \<noteq> ManagementStateManaged"
    by (simp add: unmanagedCluster_def)
  show ?thesis
    using unmanaged_untouched [OF h, of driftedStore "[]"] h by simp
qed


lemmas reconcile_defs =
  CreateOrUpdateCuration_def createOrUpdateCuratorServiceAccount_def
  createOrUpdateCuratorConfigMap_def createOrUpdateCuratorSecret_def
  createOrUpdateCuratorCronJob_def updateCuratorIfRequired_def isCuratorDifferent_def
  updateStatusAttempt_def removeCurator_def getCuratorStatus_def DoesClusterLoggingExist_def
  utils_CreateOrUpdateSecret_def utils_Remove_def RetryOnConflict_def
  sdk_Create_def sdk_Get_def sdk_Update_def sdk_Delete_def fatalUnless_def returned_def
  AllInOne_def IsAlreadyExists_def IsNotFound_def IsConflict_def

subsection \<open>The order of the steps\<close>


subsection \<open>Teardown\<close>

text \<open>
  Claim C1.  On \<open>failingStore\<close> the deletion of the service account fails with an error
  that is not "not found": \<open>removeCurator\<close> returns it, and \<open>CreateOrUpdateCuration\<close>,
  which ignores the result of \<open>removeCurator\<close>, returns success.
\<close>

theorem teardown_error_dropped:
  "fst (removeCurator failingStore disabledCluster []) =
     Failed (Errorf ''Failure deleting curator service account: '' (StatusError Unknown))
   \<and> CreateOrUpdateCuration failingStore disabledCluster [] =
     (Ok, [Delete KServiceAccount ''openshift-logging'' ''curator''])"
  by (simp add: reconcile_defs store_defs model_defs)

text \<open>
  Claim C3.  In the split topology the scheduled-job step creates the jobs
  \<open>curator-app\<close> and \<open>curator-infra\<close>, and \<open>removeCurator\<close> deletes the service account,
  the config map, the secret and the one cron job named \<open>curator\<close>.
\<close>

theorem teardown_ignores_topology:
  "map describe (snd (removeCurator driftedStore splitCluster [])) =
     [(VDelete, Some KServiceAccount, ''curator''),
      (VDelete, Some KConfigMap, ''curator''),
      (VDelete, Some KSecret, ''curator''),
      (VDelete, Some KCronJob, ''curator'')]
   \<and> map describe (filter isCreate (snd (createOrUpdateCuratorCronJob driftedStore splitCluster []))) =
     [(VCreate, Some KCronJob, ''curator-app''),
      (VCreate, Some KCronJob, ''curator-infra'')]"
  by (simp add: reconcile_defs store_defs model_defs eval_nat_numeral)





text \<open>
  The first attempt of the status loop compares the stored status with the freshly
  computed one: it issues an update exactly when the re-fetched cluster configuration
  exists with a different stored status.
\<close>

lemma first_attempt_writes_iff:
  "\<exists>new. snd (snd (updateStatusAttempt w (newStatusFrame cluster curatorStatus, t))) = t @ new
     \<and> ((\<exists>x. Update x \<in> set new)
          = (\<exists>stored. onGetClusterLogging w t cluster = Inr stored
                \<and> CuratorStatus stored \<noteq> curatorStatus))"
  by (cases "onGetClusterLogging w t cluster")
     (auto simp: updateStatusAttempt_def DoesClusterLoggingExist_def sdk_Update_def Let_def
                 newStatusFrame_def clusterValue_def)

subsection \<open>The status write\<close>

text \<open>
  Claim C8.  On \<open>conflictStore\<close> the first attempt of the status loop fetches the cluster
  configuration, finds the stored status \<open>stale\<close> different from the computed status
  \<open>fresh\<close> and issues an update, which answers a conflict.  The second attempt fetches
  again, the stored status is still \<open>stale\<close>, and no update is issued: the re-fetch has
  decoded the stored status into the storage that the captured variable shares with the
  cluster object since the assignment of the first attempt, so the comparison finds them
  equal, and the reconciliation returns success with the status not written.
\<close>

theorem status_retry_skips_write:
  "map describe (snd (CreateOrUpdateCuration conflictStore managedCluster [])) =
     [(VCreate, Some KServiceAccount, ''curator''),
      (VCreate, Some KConfigMap, ''curator''),
      (VCreate, Some KCronJob, ''curator''),
      (VGet, Some KCronJob, ''curator''),
      (VUpdate, Some KCronJob, ''curator''),
      (VCreate, Some KSecret, ''curator''),
      (VList, None, ''openshift-logging''),
      (VGet, Some KClusterLogging, ''instance''),
      (VUpdate, Some KClusterLogging, ''instance''),
      (VGet, Some KClusterLogging, ''instance'')]
   \<and> fst (CreateOrUpdateCuration conflictStore managedCluster []) = Ok
   \<and> onCuratorStatus conflictStore [] ''openshift-logging'' = Inr ''fresh''
   \<and> map_sum id CuratorStatus (onGetClusterLogging conflictStore [] managedCluster) = Inr ''stale''"
  by (simp add: reconcile_defs store_defs model_defs eval_nat_numeral)

text \<open>
  The object that \<open>sdk.Create\<close> has written back is the desired job of the diff: when the
  server defaults the suspended flag of the created job and the live job is suspended,
  the scheduled-job step creates, fetches and updates.
\<close>

lemma created_answer_is_desired:
  "map describe (snd (createOrUpdateCuratorCronJob defaultingStore managedCluster [])) =
     [(VCreate, Some KCronJob, ''curator''),
      (VGet, Some KCronJob, ''curator''),
      (VUpdate, Some KCronJob, ''curator'')]"
  by (simp add: reconcile_defs store_defs model_defs eval_nat_numeral)

end
